theory Spec2Isabelle
  imports Main "HOL-Library.AList"
begin

section \<open>Strings and paths\<close>

text \<open>
  A Python string is modelled as its UTF-8 encoding, a \<^typ>\<open>string\<close>. Of a name
  the program only inspects ASCII characters (the suffix \<^verbatim>\<open>.html\<close>, the separator
  \<^verbatim>\<open>/\<close>, the dot of a suffix); white space is recognised in its encoded form,
  for every character that \<^verbatim>\<open>str.isspace()\<close> accepts.
  Paths follow the POSIX flavour of \<^verbatim>\<open>os.path\<close> and \<^verbatim>\<open>pathlib\<close>.
\<close>

definition startswith :: "string \<Rightarrow> string \<Rightarrow> bool" where
  "startswith s p = (take (length p) s = p)"

definition endswith :: "string \<Rightarrow> string \<Rightarrow> bool" where
  "endswith s p = (length p \<le> length s \<and> drop (length s - length p) s = p)"

definition lower_char :: "char \<Rightarrow> char" where
  "lower_char c =
     (let n = (of_char c :: nat) in if 65 \<le> n \<and> n \<le> 90 then char_of (n + 32) else c)"

definition lower :: "string \<Rightarrow> string" where
  "lower s = map lower_char s"

text \<open>\<^verbatim>\<open>s.rfind(c)\<close>: the index of the last occurrence, or \<open>-1\<close>.\<close>

fun rfind :: "string \<Rightarrow> char \<Rightarrow> int" where
  "rfind [] c = - 1"
| "rfind (x # xs) c =
     (let r = rfind xs c in if 0 \<le> r then r + 1 else if x = c then 0 else - 1)"

definition rstrip_char :: "char \<Rightarrow> string \<Rightarrow> string" where
  "rstrip_char c s = rev (dropWhile (\<lambda>x. x = c) (rev s))"

text \<open>\<^verbatim>\<open>posixpath.join(a, b)\<close>.\<close>

definition os_path_join :: "string \<Rightarrow> string \<Rightarrow> string" where
  "os_path_join a b =
     (if startswith b ''/'' then b
      else if a = [] \<or> endswith a ''/'' then a @ b
      else a @ ''/'' @ b)"

text \<open>\<^verbatim>\<open>posixpath.dirname(p)\<close> and \<^verbatim>\<open>posixpath.basename(p)\<close>.\<close>

definition os_path_dirname :: "string \<Rightarrow> string" where
  "os_path_dirname p =
     (let i = rfind p (CHR ''/'') + 1;
          head = take (nat i) p
      in if head \<noteq> [] \<and> head \<noteq> replicate (length head) (CHR ''/'')
         then rstrip_char (CHR ''/'') head else head)"


text \<open>\<^verbatim>\<open>s.split(c)\<close> for a one-character separator.\<close>

fun cons_first :: "char \<Rightarrow> string list \<Rightarrow> string list" where
  "cons_first x [] = [[x]]"
| "cons_first x (p # ps) = (x # p) # ps"

fun split_char :: "char \<Rightarrow> string \<Rightarrow> string list" where
  "split_char c [] = [[]]"
| "split_char c (x # xs) =
     (if x = c then [] # split_char c xs else cons_first x (split_char c xs))"

text \<open>
  \<^verbatim>\<open>Path(p).name\<close> and \<^verbatim>\<open>Path(p).stem\<close>: the path is cut at the separators, empty
  and \<^verbatim>\<open>.\<close> components are dropped, the name is the last component left (empty when
  there is none), and the stem is the name without its last suffix.
\<close>

definition path_name :: "string \<Rightarrow> string" where
  "path_name p =
     (case filter (\<lambda>x. x \<noteq> [] \<and> x \<noteq> ''.'') (split_char (CHR ''/'') p) of
        [] \<Rightarrow> []
      | x # xs \<Rightarrow> last (x # xs))"

definition stem :: "string \<Rightarrow> string" where
  "stem p =
     (let name = path_name p;
          i = rfind name (CHR ''.'')
      in if 0 < i \<and> i < int (length name) - 1 then take (nat i) name else name)"

section \<open>Exceptions, the libraries and the operating system\<close>

text \<open>
  An exception is a value. \<open>RuntimeError\<close> and \<open>FileNotFoundError\<close> are the two classes
  the program raises itself; every other exception class (raised by the operating
  system or by a rendering library) is \<open>OtherError\<close> with its class name. Only
  subclasses of \<^verbatim>\<open>Exception\<close> are modelled. \<open>str_exn\<close> is \<^verbatim>\<open>str(e)\<close>.
\<close>

datatype exn =
    RuntimeError string
  | FileNotFoundError string
  | OtherError string string

fun str_exn :: "exn \<Rightarrow> string" where
  "str_exn (RuntimeError m) = m"
| "str_exn (FileNotFoundError m) = m"
| "str_exn (OtherError k m) = m"

text \<open>The argument of WeasyPrint's \<^verbatim>\<open>HTML(filename=...)\<close> or \<^verbatim>\<open>HTML(string=...)\<close>.\<close>

datatype source = Filename string | String string

text \<open>
  The tree BeautifulSoup builds: text, comments and tags with their children.
\<close>

datatype node = NavigableString string | Comment string | Tag string "node list"

text \<open>ReportLab flowables, with the two styles of the sample style sheet that are used.\<close>

datatype style = Title | Normal

datatype flowable = Paragraph string style | Spacer nat nat

text \<open>
  The world outside the program (the file system) is a state of type \<open>'w\<close>, and every
  call into the operating system or into a third-party library is a field of the
  environment: a read returns a value or an exception, a write returns the new world
  as well, also when it raises.
\<close>

record 'w env =
  os_path_exists :: "'w \<Rightarrow> string \<Rightarrow> bool"
  os_listdir :: "'w \<Rightarrow> string \<Rightarrow> exn + string list"
  os_makedirs :: "string \<Rightarrow> 'w \<Rightarrow> (exn + unit) \<times> 'w"
  open_read :: "'w \<Rightarrow> string \<Rightarrow> exn + string"
  open_write :: "string \<Rightarrow> string \<Rightarrow> 'w \<Rightarrow> (exn + unit) \<times> 'w"
  write_pdf :: "source \<Rightarrow> string \<Rightarrow> 'w \<Rightarrow> (exn + unit) \<times> 'w"
  fallback_import_error :: "string option"
  BeautifulSoup :: "string \<Rightarrow> exn + node list"
  doc_build :: "string \<Rightarrow> flowable list \<Rightarrow> 'w \<Rightarrow> (exn + unit) \<times> 'w"

text \<open>
  \<open>os_makedirs\<close> is \<^verbatim>\<open>os.makedirs(p, exist_ok=True)\<close>, \<open>open_read\<close> is reading a
  file as UTF-8 text, \<open>open_write\<close> is writing one, \<open>write_pdf\<close> is WeasyPrint's
  \<^verbatim>\<open>HTML(...).write_pdf(out)\<close>, \<open>BeautifulSoup\<close> is the \<^verbatim>\<open>html.parser\<close> tree of
  a document (or the exception the parser raises), \<open>doc_build\<close> is \<^verbatim>\<open>SimpleDocTemplate(out, pagesize=letter).build(story)\<close>
  including the construction of the paragraphs, and \<open>fallback_import_error\<close> is the
  message of the \<^verbatim>\<open>ImportError\<close> of the imports inside the fallback conversion, if
  they fail. Logging is not modelled.
\<close>

section \<open>Backend selection\<close>

record globals =
  PDF_GENERATION_AVAILABLE :: bool
  PDF_METHOD :: "string option"

text \<open>The two nested imports at module level, given which library can be imported.\<close>

definition module_init :: "bool \<Rightarrow> bool \<Rightarrow> globals" where
  "module_init weasyprint_importable reportlab_importable =
     (if weasyprint_importable
      then \<lparr>PDF_GENERATION_AVAILABLE = True, PDF_METHOD = Some ''weasyprint''\<rparr>
      else if reportlab_importable
      then \<lparr>PDF_GENERATION_AVAILABLE = True, PDF_METHOD = Some ''reportlab''\<rparr>
      else \<lparr>PDF_GENERATION_AVAILABLE = False, PDF_METHOD = None\<rparr>)"

section \<open>The converter\<close>

record converter =
  output_directory :: string



definition convert_with_weasyprint_file ::
  "'w env \<Rightarrow> globals \<Rightarrow> string \<Rightarrow> string \<Rightarrow> 'w \<Rightarrow> (exn + string) \<times> 'w" where
  "convert_with_weasyprint_file os g html_file_path output_pdf_path w =
     (if PDF_METHOD g \<noteq> Some ''weasyprint''
      then (Inl (RuntimeError ''WeasyPrint not available''), w)
      else case os_makedirs os (os_path_dirname output_pdf_path) w of
        (Inl e, w1) \<Rightarrow> (Inl e, w1)
      | (Inr u, w1) \<Rightarrow>
          (case write_pdf os (Filename html_file_path) output_pdf_path w1 of
             (Inl e, w2) \<Rightarrow> (Inl e, w2)
           | (Inr u, w2) \<Rightarrow> (Inr output_pdf_path, w2)))"

definition convert_with_weasyprint_string ::
  "'w env \<Rightarrow> globals \<Rightarrow> string \<Rightarrow> string \<Rightarrow> 'w \<Rightarrow> (exn + string) \<times> 'w" where
  "convert_with_weasyprint_string os g html_content output_pdf_path w =
     (if PDF_METHOD g \<noteq> Some ''weasyprint''
      then (Inl (RuntimeError ''WeasyPrint not available''), w)
      else case os_makedirs os (os_path_dirname output_pdf_path) w of
        (Inl e, w1) \<Rightarrow> (Inl e, w1)
      | (Inr u, w1) \<Rightarrow>
          (case write_pdf os (String html_content) output_pdf_path w1 of
             (Inl e, w2) \<Rightarrow> (Inl e, w2)
           | (Inr u, w2) \<Rightarrow> (Inr output_pdf_path, w2)))"

subsection \<open>The fallback backend: text extraction\<close>

text \<open>
  \<^verbatim>\<open>for script in soup(["script", "style"]): script.decompose()\<close> removes every tag
  with one of these names, at any depth, with everything inside it.
\<close>

fun is_tag_of :: "string list \<Rightarrow> node \<Rightarrow> bool" where
  "is_tag_of names (Tag t cs) = (t \<in> set names)"
| "is_tag_of names n = False"

fun decompose :: "string list \<Rightarrow> node \<Rightarrow> node"
  and decompose_all :: "string list \<Rightarrow> node list \<Rightarrow> node list" where
  "decompose names (Tag t cs) = Tag t (decompose_all names cs)"
| "decompose names (NavigableString s) = NavigableString s"
| "decompose names (Comment s) = Comment s"
| "decompose_all names [] = []"
| "decompose_all names (n # ns) =
     (if is_tag_of names n then decompose_all names ns
      else decompose names n # decompose_all names ns)"

text \<open>\<^verbatim>\<open>get_text()\<close>: the strings of the tree in document order, comments left out.\<close>

fun get_text :: "node \<Rightarrow> string"
  and get_text_all :: "node list \<Rightarrow> string" where
  "get_text (NavigableString s) = s"
| "get_text (Comment s) = []"
| "get_text (Tag t cs) = get_text_all cs"
| "get_text_all [] = []"
| "get_text_all (n # ns) = get_text n @ get_text_all ns"

text \<open>\<^verbatim>\<open>soup.find(name)\<close>: the first tag of that name in document order.\<close>

fun find_tag :: "string \<Rightarrow> node \<Rightarrow> node option"
  and find_tag_all :: "string \<Rightarrow> node list \<Rightarrow> node option" where
  "find_tag name (NavigableString s) = None"
| "find_tag name (Comment s) = None"
| "find_tag name (Tag t cs) = (if t = name then Some (Tag t cs) else find_tag_all name cs)"
| "find_tag_all name [] = None"
| "find_tag_all name (n # ns) =
     (case find_tag name n of Some r \<Rightarrow> Some r | None \<Rightarrow> find_tag_all name ns)"

text \<open>\<^verbatim>\<open>text.split('\n\n')\<close>: cut at each pair of line feeds, left to right.\<close>

fun split_nn :: "string \<Rightarrow> string list" where
  "split_nn [] = [[]]"
| "split_nn [x] = [[x]]"
| "split_nn (x # y # zs) =
     (if x = CHR 0x0A \<and> y = CHR 0x0A then [] # split_nn zs
      else cons_first x (split_nn (y # zs)))"

text \<open>
  \<^verbatim>\<open>s.strip()\<close> removes the white space at both ends. \<open>whitespace\<close> lists the
  UTF-8 encodings of the characters for which \<^verbatim>\<open>str.isspace()\<close> holds: U+0009 to
  U+000D, U+001C to U+0020, U+0085, U+00A0, U+1680, U+2000 to U+200A, U+2028, U+2029,
  U+202F, U+205F and U+3000. In well-formed UTF-8 a string starts (ends) with one of
  these encodings exactly when its first (last) character is that character.
\<close>

definition whitespace :: "string list" where
  "whitespace =
     [[CHR 0x09], [CHR 0x0A], [CHR 0x0B], [CHR 0x0C], [CHR 0x0D], [CHR 0x1C], [CHR 0x1D],
      [CHR 0x1E], [CHR 0x1F], [CHR 0x20], [CHR 0xC2, CHR 0x85], [CHR 0xC2, CHR 0xA0],
      [CHR 0xE1, CHR 0x9A, CHR 0x80], [CHR 0xE2, CHR 0x80, CHR 0x80],
      [CHR 0xE2, CHR 0x80, CHR 0x81], [CHR 0xE2, CHR 0x80, CHR 0x82],
      [CHR 0xE2, CHR 0x80, CHR 0x83], [CHR 0xE2, CHR 0x80, CHR 0x84],
      [CHR 0xE2, CHR 0x80, CHR 0x85], [CHR 0xE2, CHR 0x80, CHR 0x86],
      [CHR 0xE2, CHR 0x80, CHR 0x87], [CHR 0xE2, CHR 0x80, CHR 0x88],
      [CHR 0xE2, CHR 0x80, CHR 0x89], [CHR 0xE2, CHR 0x80, CHR 0x8A],
      [CHR 0xE2, CHR 0x80, CHR 0xA8], [CHR 0xE2, CHR 0x80, CHR 0xA9],
      [CHR 0xE2, CHR 0x80, CHR 0xAF], [CHR 0xE2, CHR 0x81, CHR 0x9F],
      [CHR 0xE3, CHR 0x80, CHR 0x80]]"

text \<open>
  \<open>drop_prefixes ps s\<close> removes from the front of \<open>s\<close>, as long as there is one, a
  non-empty member of \<open>ps\<close> that \<open>s\<close> starts with.
\<close>

function drop_prefixes :: "string list \<Rightarrow> string \<Rightarrow> string" where
  "drop_prefixes ps s =
     (case find (\<lambda>p. p \<noteq> [] \<and> startswith s p) ps of
        None \<Rightarrow> s
      | Some p \<Rightarrow> drop_prefixes ps (drop (length p) s))"
  by pat_completeness auto
termination
proof (relation "measure (\<lambda>(ps, s). length s)")
  show "wf (measure (\<lambda>(ps, s). length s))" by simp
next
  fix ps s p
  assume "find (\<lambda>p. p \<noteq> [] \<and> startswith s p) ps = Some p"
  then have "p \<noteq> []" and "startswith s p"
    by (auto simp: find_Some_iff)
  then have "s \<noteq> []"
    by (auto simp: startswith_def)
  with \<open>p \<noteq> []\<close> show "((ps, drop (length p) s), (ps, s)) \<in> measure (\<lambda>(ps, s). length s)"
    by simp
qed

declare drop_prefixes.simps [simp del]

definition lstrip :: "string \<Rightarrow> string" where
  "lstrip s = drop_prefixes whitespace s"

definition rstrip :: "string \<Rightarrow> string" where
  "rstrip s = rev (drop_prefixes (map rev whitespace) (rev s))"

definition strip :: "string \<Rightarrow> string" where
  "strip s = rstrip (lstrip s)"

text \<open>
  The story of the fallback conversion, from the parsed document: the statements
  between the parse and \<^verbatim>\<open>doc.build(story)\<close>.
\<close>

definition title_block :: "node list \<Rightarrow> flowable list" where
  "title_block soup =
     (case find_tag_all ''title'' soup of
        Some title_tag \<Rightarrow> [Paragraph (get_text title_tag) Title, Spacer 1 12]
      | None \<Rightarrow> [])"

fun paragraph_blocks :: "string list \<Rightarrow> flowable list" where
  "paragraph_blocks [] = []"
| "paragraph_blocks (para # paragraphs) =
     (if strip para \<noteq> [] then [Paragraph (strip para) Normal, Spacer 1 6] else [])
     @ paragraph_blocks paragraphs"

definition build_story :: "node list \<Rightarrow> flowable list" where
  "build_story parsed =
     (let soup = decompose_all [''script'', ''style''] parsed;
          text_content = get_text_all soup
      in title_block soup @ paragraph_blocks (split_nn text_content))"

definition convert_with_reportlab_string ::
  "'w env \<Rightarrow> string \<Rightarrow> string \<Rightarrow> 'w \<Rightarrow> (exn + string) \<times> 'w" where
  "convert_with_reportlab_string os html_content output_pdf_path w =
     (case fallback_import_error os of
        Some m \<Rightarrow>
          (Inl (RuntimeError
             (''Required libraries not available for ReportLab conversion: '' @ m)), w)
      | None \<Rightarrow>
          (case os_makedirs os (os_path_dirname output_pdf_path) w of
             (Inl e, w1) \<Rightarrow> (Inl e, w1)
           | (Inr u, w1) \<Rightarrow>
               (case BeautifulSoup os html_content of
                  Inl e \<Rightarrow> (Inl e, w1)
                | Inr parsed \<Rightarrow>
                    (case doc_build os output_pdf_path (build_story parsed) w1 of
                       (Inl e, w2) \<Rightarrow> (Inl e, w2)
                     | (Inr u, w2) \<Rightarrow> (Inr output_pdf_path, w2)))))"

definition convert_with_reportlab_file ::
  "'w env \<Rightarrow> string \<Rightarrow> string \<Rightarrow> 'w \<Rightarrow> (exn + string) \<times> 'w" where
  "convert_with_reportlab_file os html_file_path output_pdf_path w =
     (case open_read os w html_file_path of
        Inl e \<Rightarrow> (Inl e, w)
      | Inr html_content \<Rightarrow> convert_with_reportlab_string os html_content output_pdf_path w)"

subsection \<open>The public conversions\<close>

definition unavailable :: exn where
  "unavailable = RuntimeError ''PDF generation not available. Install weasyprint or reportlab.''"

definition unknown_method :: "string option \<Rightarrow> exn" where
  "unknown_method m =
     RuntimeError (''Unknown PDF method: '' @ (case m of None \<Rightarrow> ''None'' | Some s \<Rightarrow> s))"

definition convert_html_file_to_pdf ::
  "'w env \<Rightarrow> globals \<Rightarrow> converter \<Rightarrow> string \<Rightarrow> string option \<Rightarrow> 'w
     \<Rightarrow> (exn + string) \<times> 'w" where
  "convert_html_file_to_pdf os g self html_file_path output_pdf_path w =
     (if \<not> PDF_GENERATION_AVAILABLE g then (Inl unavailable, w)
      else if \<not> os_path_exists os w html_file_path
      then (Inl (FileNotFoundError (''HTML file not found: '' @ html_file_path)), w)
      else
        let output_pdf_path =
              (case output_pdf_path of
                 None \<Rightarrow> os_path_join (output_directory self) (stem html_file_path @ ''.pdf'')
               | Some p \<Rightarrow> p)
        in if PDF_METHOD g = Some ''weasyprint''
           then convert_with_weasyprint_file os g html_file_path output_pdf_path w
           else if PDF_METHOD g = Some ''reportlab''
           then convert_with_reportlab_file os html_file_path output_pdf_path w
           else (Inl (unknown_method (PDF_METHOD g)), w))"

definition convert_html_string_to_pdf ::
  "'w env \<Rightarrow> globals \<Rightarrow> converter \<Rightarrow> string \<Rightarrow> string \<Rightarrow> 'w
     \<Rightarrow> (exn + string) \<times> 'w" where
  "convert_html_string_to_pdf os g self html_content output_pdf_path w =
     (if \<not> PDF_GENERATION_AVAILABLE g then (Inl unavailable, w)
      else if PDF_METHOD g = Some ''weasyprint''
      then convert_with_weasyprint_string os g html_content output_pdf_path w
      else if PDF_METHOD g = Some ''reportlab''
      then convert_with_reportlab_string os html_content output_pdf_path w
      else (Inl (unknown_method (PDF_METHOD g)), w))"

subsection \<open>Batch conversion\<close>

text \<open>
  The report is a Python dictionary: an association list in insertion order, where
  assigning to a key that is present replaces its value in place (\<open>AList.update\<close>).
\<close>

definition is_html :: "string \<Rightarrow> bool" where
  "is_html f = endswith (lower f) ''.html''"

fun batch_loop ::
  "'w env \<Rightarrow> globals \<Rightarrow> converter \<Rightarrow> string \<Rightarrow> string \<Rightarrow> string list
     \<Rightarrow> (string \<times> string) list \<Rightarrow> 'w \<Rightarrow> (string \<times> string) list \<times> 'w" where
  "batch_loop os g self html_directory output_dir [] results w = (results, w)"
| "batch_loop os g self html_directory output_dir (html_file # rest) results w =
     (let html_path = os_path_join html_directory html_file;
          pdf_filename = stem html_file @ ''.pdf'';
          pdf_path = os_path_join output_dir pdf_filename
      in case convert_html_file_to_pdf os g self html_path (Some pdf_path) w of
           (Inr converted_path, w1) \<Rightarrow>
             batch_loop os g self html_directory output_dir rest
               (AList.update html_path converted_path results) w1
         | (Inl e, w1) \<Rightarrow>
             batch_loop os g self html_directory output_dir rest
               (AList.update html_path (''Error: '' @ str_exn e) results) w1)"

definition batch_convert_html_files ::
  "'w env \<Rightarrow> globals \<Rightarrow> converter \<Rightarrow> string \<Rightarrow> string option \<Rightarrow> 'w
     \<Rightarrow> (exn + (string \<times> string) list) \<times> 'w" where
  "batch_convert_html_files os g self html_directory output_dir_arg w =
     (let output_dir =
            (case output_dir_arg of None \<Rightarrow> output_directory self | Some d \<Rightarrow> d)
      in if \<not> os_path_exists os w html_directory
         then (Inl (FileNotFoundError (''HTML directory not found: '' @ html_directory)), w)
         else case os_listdir os w html_directory of
             Inl e \<Rightarrow> (Inl e, w)
           | Inr entries \<Rightarrow>
               (let html_files = filter is_html entries in
                if html_files = [] then (Inr [], w)
                else case batch_loop os g self html_directory output_dir
                            html_files [] w of
                       (results, w1) \<Rightarrow> (Inr results, w1)))"

section \<open>The sample document and the command line\<close>





text \<open>
  The parsed arguments: an option that takes a value is \<open>None\<close> when it is absent
  from the command line. \<open>truthy\<close> is the test \<^verbatim>\<open>if args.html:\<close>, which holds for
  a value that is present and not the empty string, and yields that value. The field
  \<open>output_path\<close> is \<^verbatim>\<open>args.output\<close>.
\<close>

record args =
  html :: "string option"
  output_path :: "string option"
  batch :: "string option"
  output_dir :: string
  create_sample :: bool






section \<open>A small file system\<close>

text \<open>
  An instance of the environment on which the program can be run: the world is an
  association list from paths to files (with their text) and directories (with their
  listing, in order). Paths are compared as written. The empty path names nothing,
  so \<^verbatim>\<open>os.makedirs('', exist_ok=True)\<close> raises \<^verbatim>\<open>FileNotFoundError\<close> as it does
  on POSIX. The libraries are stand-ins: rendering writes a file that starts with
  \<^verbatim>\<open>%PDF\<close>, and the parser knows two documents.
\<close>

datatype fs_node = File string | Dir "string list"

type_synonym fs = "(string \<times> fs_node) list"

definition quoted :: "string \<Rightarrow> string" where
  "quoted s = [CHR 0x27] @ s @ [CHR 0x27]"

definition enoent :: "string \<Rightarrow> exn" where
  "enoent p = FileNotFoundError (''[Errno 2] No such file or directory: '' @ quoted p)"

definition eisdir :: "string \<Rightarrow> exn" where
  "eisdir p = OtherError ''IsADirectoryError'' (''[Errno 21] Is a directory: '' @ quoted p)"

definition fs_exists :: "fs \<Rightarrow> string \<Rightarrow> bool" where
  "fs_exists w p = (map_of w p \<noteq> None)"

definition fs_listdir :: "fs \<Rightarrow> string \<Rightarrow> exn + string list" where
  "fs_listdir w p =
     (case map_of w p of
        None \<Rightarrow> Inl (enoent p)
      | Some (File c) \<Rightarrow>
          Inl (OtherError ''NotADirectoryError'' (''[Errno 20] Not a directory: '' @ quoted p))
      | Some (Dir names) \<Rightarrow> Inr names)"

definition fs_makedirs :: "string \<Rightarrow> fs \<Rightarrow> (exn + unit) \<times> fs" where
  "fs_makedirs p w =
     (if p = [] then (Inl (enoent p), w)
      else case map_of w p of
        None \<Rightarrow> (Inr (), w @ [(p, Dir [])])
      | Some (File c) \<Rightarrow>
          (Inl (OtherError ''FileExistsError'' (''[Errno 17] File exists: '' @ quoted p)), w)
      | Some (Dir names) \<Rightarrow> (Inr (), w))"

definition fs_read :: "fs \<Rightarrow> string \<Rightarrow> exn + string" where
  "fs_read w p =
     (case map_of w p of
        None \<Rightarrow> Inl (enoent p)
      | Some (File c) \<Rightarrow> Inr c
      | Some (Dir names) \<Rightarrow> Inl (eisdir p))"

definition fs_write :: "string \<Rightarrow> string \<Rightarrow> fs \<Rightarrow> (exn + unit) \<times> fs" where
  "fs_write p c w =
     (case map_of w p of
        Some (Dir names) \<Rightarrow> (Inl (eisdir p), w)
      | _ \<Rightarrow> (Inr (), AList.update p (File c) w))"

definition fs_write_pdf :: "source \<Rightarrow> string \<Rightarrow> fs \<Rightarrow> (exn + unit) \<times> fs" where
  "fs_write_pdf src out w =
     (case src of
        String c \<Rightarrow> fs_write out (''%PDF '' @ c) w
      | Filename f \<Rightarrow>
          (case fs_read w f of
             Inl e \<Rightarrow> (Inl (OtherError ''URLFetchingError'' (str_exn e)), w)
           | Inr c \<Rightarrow> fs_write out (''%PDF '' @ c) w))"

fun flowable_text :: "flowable \<Rightarrow> string" where
  "flowable_text (Paragraph t s) = t @ [CHR 0x0A]"
| "flowable_text (Spacer a b) = []"

definition fs_doc_build :: "string \<Rightarrow> flowable list \<Rightarrow> fs \<Rightarrow> (exn + unit) \<times> fs" where
  "fs_doc_build out story w = fs_write out (''%PDF '' @ concat (map flowable_text story)) w"

text \<open>The document of the fallback example and the tree \<^verbatim>\<open>html.parser\<close> builds for it.\<close>

definition demo_html :: string where
  "demo_html = ''<title>Demo</title><p>A</p><p></p><p>B</p>''"

definition demo_soup :: "node list" where
  "demo_soup =
     [Tag ''title'' [NavigableString ''Demo''],
      Tag ''p'' [NavigableString ''A''],
      Tag ''p'' [],
      Tag ''p'' [NavigableString ''B'']]"

text \<open>
  A second document, with a blank line, white space around the text, a piece that is
  white space only, a no-break space (\<^verbatim>\<open>&nbsp;\<close>, U+00A0) and a \<^verbatim>\<open>script\<close> and a
  \<^verbatim>\<open>style\<close> element, and its tree.
\<close>

definition nbsp :: string where
  "nbsp = [CHR 0xC2, CHR 0xA0]"

definition spaced_html :: string where
  "spaced_html =
     ''<title>Demo</title><p> A\<newline>\<newline> &nbsp; \<newline>\<newline>B&nbsp;</p>''
     @ ''<script>x=1</script><style>p{}</style>''"

definition spaced_soup :: "node list" where
  "spaced_soup =
     [Tag ''title'' [NavigableString ''Demo''],
      Tag ''p'' [NavigableString
        ('' A\<newline>\<newline> '' @ nbsp @ '' \<newline>\<newline>B'' @ nbsp)],
      Tag ''script'' [NavigableString ''x=1''],
      Tag ''style'' [NavigableString ''p{}'']]"

definition fs_parse :: "string \<Rightarrow> exn + node list" where
  "fs_parse s =
     Inr (if s = demo_html then demo_soup
          else if s = spaced_html then spaced_soup
          else [NavigableString s])"

definition fs_env :: "fs env" where
  "fs_env =
     \<lparr>os_path_exists = fs_exists,
      os_listdir = fs_listdir,
      os_makedirs = fs_makedirs,
      open_read = fs_read,
      open_write = fs_write,
      write_pdf = fs_write_pdf,
      fallback_import_error = None,
      BeautifulSoup = fs_parse,
      doc_build = fs_doc_build\<rparr>"

definition weasyprint_selected :: globals where
  "weasyprint_selected = module_init True False"

definition reportlab_selected :: globals where
  "reportlab_selected = module_init False True"

definition nothing_selected :: globals where
  "nothing_selected = module_init False False"

section \<open>Auxiliary notions for stating the properties\<close>

text \<open>
  The value stored in the report for the result of one conversion, the results of
  the single-file conversions of a batch in order (each run in the world its
  predecessors left behind), that world, and the output directory a batch uses.
\<close>

definition report_entry :: "exn + string \<Rightarrow> string" where
  "report_entry r =
     (case r of Inr converted_path \<Rightarrow> converted_path | Inl e \<Rightarrow> ''Error: '' @ str_exn e)"

fun batch_outcomes ::
  "'w env \<Rightarrow> globals \<Rightarrow> converter \<Rightarrow> string \<Rightarrow> string \<Rightarrow> string list \<Rightarrow> 'w
     \<Rightarrow> (exn + string) list" where
  "batch_outcomes os g self d out [] w = []"
| "batch_outcomes os g self d out (f # rest) w =
     (case convert_html_file_to_pdf os g self (os_path_join d f)
             (Some (os_path_join out (stem f @ ''.pdf''))) w of
        (r, w1) \<Rightarrow> r # batch_outcomes os g self d out rest w1)"

fun batch_world ::
  "'w env \<Rightarrow> globals \<Rightarrow> converter \<Rightarrow> string \<Rightarrow> string \<Rightarrow> string list \<Rightarrow> 'w \<Rightarrow> 'w" where
  "batch_world os g self d out [] w = w"
| "batch_world os g self d out (f # rest) w =
     batch_world os g self d out rest
       (snd (convert_html_file_to_pdf os g self (os_path_join d f)
               (Some (os_path_join out (stem f @ ''.pdf''))) w))"

definition chosen_dir :: "converter \<Rightarrow> string option \<Rightarrow> string" where
  "chosen_dir self out = (case out of None \<Rightarrow> output_directory self | Some x \<Rightarrow> x)"

text \<open>
  For the fallback backend: the strings of a document that are not inside a
  \<^verbatim>\<open>script\<close> or \<^verbatim>\<open>style\<close> tag, in document order; \<^verbatim>\<open>'\n\n'.join(pieces)\<close>;
  the non-empty stripped pieces of a text; the paragraph texts of a story by style.
\<close>

fun visible_strings :: "node \<Rightarrow> string list"
  and visible_strings_all :: "node list \<Rightarrow> string list" where
  "visible_strings (NavigableString s) = [s]"
| "visible_strings (Comment s) = []"
| "visible_strings (Tag t cs) =
     (if t = ''script'' \<or> t = ''style'' then [] else visible_strings_all cs)"
| "visible_strings_all [] = []"
| "visible_strings_all (n # ns) = visible_strings n @ visible_strings_all ns"

fun join_nn :: "string list \<Rightarrow> string" where
  "join_nn [] = []"
| "join_nn [p] = p"
| "join_nn (p # q # ps) = p @ [CHR 0x0A, CHR 0x0A] @ join_nn (q # ps)"

definition paragraphs_of :: "string \<Rightarrow> string list" where
  "paragraphs_of text_content = filter (\<lambda>p. p \<noteq> []) (map strip (split_nn text_content))"

fun paragraph_texts :: "style \<Rightarrow> flowable list \<Rightarrow> string list" where
  "paragraph_texts st [] = []"
| "paragraph_texts st (Paragraph t st' # fs) =
     (if st' = st then t # paragraph_texts st fs else paragraph_texts st fs)"
| "paragraph_texts st (Spacer a b # fs) = paragraph_texts st fs"

text \<open>
  The claim's wording of the body text, ``the remaining extracted text'': the text of
  the document once the title element has been taken out as well.
\<close>

definition remaining_text :: "node list \<Rightarrow> string" where
  "remaining_text parsed = get_text_all (decompose_all [''script'', ''style'', ''title''] parsed)"





text \<open>Concrete inputs: a site directory with a subdirectory named like a page.\<close>

definition site_listing :: "string list" where
  "site_listing = [''index.html'', ''notes.txt'', ''old.html'', ''About.HTML'']"

definition site_world :: fs where
  "site_world =
     [(''site'', Dir site_listing),
      (''site/index.html'', File ''<p>hi</p>''),
      (''site/notes.txt'', File ''n''),
      (''site/old.html'', Dir []),
      (''site/About.HTML'', File ''about'')]"

definition notes_world :: fs where
  "notes_world = [(''notes'', Dir [''a.txt'', ''b.css'']), (''notes/a.txt'', File ''a'')]"

definition report_world :: fs where
  "report_world = [(''docs/report.html'', File ''hello'')]"

definition conv_out :: converter where
  "conv_out = \<lparr>output_directory = ''out''\<rparr>"


section \<open>Properties of the single-file conversion\<close>

lemma weasy_file_path:
  "convert_with_weasyprint_file os g h p w = (Inr q, w') \<Longrightarrow> q = p"
  by (auto simp: convert_with_weasyprint_file_def split: if_splits prod.splits sum.splits)

lemma reportlab_string_path:
  "convert_with_reportlab_string os c p w = (Inr q, w') \<Longrightarrow> q = p"
  by (auto simp: convert_with_reportlab_string_def split: option.splits prod.splits sum.splits)

lemma reportlab_file_path:
  "convert_with_reportlab_file os h p w = (Inr q, w') \<Longrightarrow> q = p"
  by (auto simp: convert_with_reportlab_file_def split: sum.splits dest: reportlab_string_path)

lemma convert_file_returns_path:
  "convert_html_file_to_pdf os g self h (Some p) w = (Inr q, w') \<Longrightarrow> q = p"
  by (auto simp: convert_html_file_to_pdf_def split: if_splits
      dest: weasy_file_path reportlab_file_path)

lemma convert_file_default:
  "convert_html_file_to_pdf os g self h None w =
   convert_html_file_to_pdf os g self h
     (Some (os_path_join (output_directory self) (stem h @ ''.pdf''))) w"
  by (simp add: convert_html_file_to_pdf_def)

lemma module_init_available:
  "PDF_GENERATION_AVAILABLE (module_init a b) = (a \<or> b)"
  by (simp add: module_init_def)

text \<open>
  Claim C1, as the code has it. The availability guard comes first, so a path that
  does not exist is reported as \<open>FileNotFoundError\<close> when a backend was selected, and
  as the \<open>RuntimeError\<close> of the guard when none was. In both cases the world is
  left as it was: no backend ran, so no rendering error can be the result. Neither the
  path nor the output path argument matters.
\<close>

theorem missing_html_file_not_found:
  "\<not> os_path_exists os w p \<Longrightarrow>
   convert_html_file_to_pdf os g self p out w =
     (Inl (if PDF_GENERATION_AVAILABLE g
           then FileNotFoundError (''HTML file not found: '' @ p)
           else RuntimeError ''PDF generation not available. Install weasyprint or reportlab.''),
      w)"
  by (simp add: convert_html_file_to_pdf_def unavailable_def)

theorem missing_html_file_not_found_witness:
  "\<not> os_path_exists fs_env [] ''missing.html'' \<and>
   convert_html_file_to_pdf fs_env reportlab_selected conv_out ''missing.html'' None [] =
     (Inl (FileNotFoundError ''HTML file not found: missing.html''), [])"
  using missing_html_file_not_found [of fs_env "[]" "''missing.html''" reportlab_selected
      conv_out None]
  by (simp add: fs_env_def fs_exists_def reportlab_selected_def module_init_def)

text \<open>
  Claim C1 as stated (every missing path fails with \<open>FileNotFoundError\<close>) is false
  when no backend was selected: the result is the guard's \<open>RuntimeError\<close>.
\<close>

theorem missing_html_file_without_backend:
  "\<not> os_path_exists fs_env [] ''missing.html'' \<and>
   convert_html_file_to_pdf fs_env nothing_selected conv_out ''missing.html'' None [] =
     (Inl (RuntimeError ''PDF generation not available. Install weasyprint or reportlab.''), [])"
  by (simp add: fs_env_def fs_exists_def nothing_selected_def module_init_def
      convert_html_file_to_pdf_def unavailable_def)

text \<open>
  Claim C2. A conversion without an explicit output path that returns, returns the
  output directory of the converter joined with the stem of the input path plus
  \<^verbatim>\<open>.pdf\<close>; it is the conversion with that path given explicitly. (A conversion
  that returns has found the input file.)
\<close>

theorem default_output_path:
  "convert_html_file_to_pdf os g self h None w = (Inr q, w') \<Longrightarrow>
   os_path_exists os w h \<and>
   q = os_path_join (output_directory self) (stem h @ ''.pdf'') \<and>
   convert_html_file_to_pdf os g self h (Some q) w = (Inr q, w')"
proof -
  assume r: "convert_html_file_to_pdf os g self h None w = (Inr q, w')"
  have ex: "os_path_exists os w h"
    using r by (simp add: convert_html_file_to_pdf_def split: if_splits)
  have q: "q = os_path_join (output_directory self) (stem h @ ''.pdf'')"
    using r unfolding convert_file_default by (rule convert_file_returns_path)
  show ?thesis
    using ex q r by (simp add: convert_file_default)
qed

theorem default_output_path_witness:
  "os_path_exists fs_env report_world ''docs/report.html'' \<and>
   ''out/report.pdf'' = os_path_join (output_directory conv_out) (stem ''docs/report.html'' @ ''.pdf'') \<and>
   convert_html_file_to_pdf fs_env reportlab_selected conv_out ''docs/report.html''
     (Some ''out/report.pdf'') report_world =
     (Inr ''out/report.pdf'',
      [(''docs/report.html'', File ''hello''), (''out'', Dir []),
       (''out/report.pdf'', File ''%PDF hello\<newline>'')])"
proof -
  have run: "convert_html_file_to_pdf fs_env reportlab_selected conv_out ''docs/report.html''
      None report_world =
     (Inr ''out/report.pdf'',
      [(''docs/report.html'', File ''hello''), (''out'', Dir []),
       (''out/report.pdf'', File ''%PDF hello\<newline>'')])"
    by code_simp
  show ?thesis
    by (rule default_output_path [OF run])
qed

text \<open>
  Claim C3. When the module found no backend (\<open>PDF_GENERATION_AVAILABLE\<close> is false,
  which is what \<open>module_init\<close> yields when neither library can be imported), both
  conversions raise the \<open>RuntimeError\<close> that names the two libraries, for every
  input, and leave the world as it was.
\<close>

theorem no_backend_unavailable:
  "\<not> PDF_GENERATION_AVAILABLE g \<Longrightarrow>
   convert_html_file_to_pdf os g self h out w =
     (Inl (RuntimeError ''PDF generation not available. Install weasyprint or reportlab.''), w) \<and>
   convert_html_string_to_pdf os g self content p w =
     (Inl (RuntimeError ''PDF generation not available. Install weasyprint or reportlab.''), w)"
  by (simp add: convert_html_file_to_pdf_def convert_html_string_to_pdf_def unavailable_def)

theorem no_backend_unavailable_witness:
  "\<not> PDF_GENERATION_AVAILABLE (module_init False False) \<and>
   convert_html_file_to_pdf fs_env (module_init False False) conv_out ''docs/report.html''
     None report_world =
     (Inl (RuntimeError ''PDF generation not available. Install weasyprint or reportlab.''),
      report_world) \<and>
   convert_html_string_to_pdf fs_env (module_init False False) conv_out ''<p>x</p>''
     ''out/x.pdf'' report_world =
     (Inl (RuntimeError ''PDF generation not available. Install weasyprint or reportlab.''),
      report_world)"
proof -
  have off: "\<not> PDF_GENERATION_AVAILABLE (module_init False False)"
    by (simp add: module_init_available)
  show ?thesis
    using off no_backend_unavailable [OF off, of fs_env conv_out "''docs/report.html''" None
        report_world "''<p>x</p>''" "''out/x.pdf''"]
    by simp
qed

section \<open>Properties of the batch conversion\<close>

lemma not_startswith_slash: "CHR ''/'' \<notin> set a \<Longrightarrow> \<not> startswith a ''/''"
  by (cases a) (auto simp: startswith_def)

lemma os_path_join_inject:
  assumes "CHR ''/'' \<notin> set a" "CHR ''/'' \<notin> set b" "os_path_join d a = os_path_join d b"
  shows "a = b"
  using assms by (auto simp: os_path_join_def not_startswith_slash split: if_splits)

lemma distinct_keys:
  assumes "distinct names" "\<forall>n\<in>set names. CHR ''/'' \<notin> set n"
  shows "distinct (map (os_path_join d) names)"
  using assms by (auto simp: distinct_map intro!: inj_onI dest: os_path_join_inject)

lemma update_fresh: "k \<notin> fst ` set al \<Longrightarrow> AList.update k v al = al @ [(k, v)]"
  by (induction al) auto

lemma batch_loop_report:
  assumes "distinct (map (os_path_join d) files)"
    and "set (map (os_path_join d) files) \<inter> fst ` set results = {}"
  shows "batch_loop os g self d out files results w =
           (results @ zip (map (os_path_join d) files)
                          (map report_entry (batch_outcomes os g self d out files w)),
            batch_world os g self d out files w)"
  using assms
proof (induction files arbitrary: results w)
  case Nil
  then show ?case by simp
next
  case (Cons f files)
  let ?k = "os_path_join d f"
  obtain r w1 where conv: "convert_html_file_to_pdf os g self ?k
             (Some (os_path_join out (stem f @ ''.pdf''))) w = (r, w1)"
    by (cases "convert_html_file_to_pdf os g self ?k
             (Some (os_path_join out (stem f @ ''.pdf''))) w") auto
  from Cons.prems have fresh: "?k \<notin> fst ` set results" by auto
  have upd: "AList.update ?k (report_entry r) results = results @ [(?k, report_entry r)]"
    using fresh by (rule update_fresh)
  have d': "distinct (map (os_path_join d) files)" using Cons.prems by simp
  have disj: "set (map (os_path_join d) files) \<inter> fst ` set (results @ [(?k, report_entry r)]) = {}"
    using Cons.prems by auto
  have step: "batch_loop os g self d out (f # files) results w =
          batch_loop os g self d out files (AList.update ?k (report_entry r) results) w1"
    using conv by (cases r) (simp_all add: report_entry_def Let_def)
  show ?case
    unfolding step upd Cons.IH [OF d' disj]
    using conv by simp
qed

lemma batch_outcomes_length [simp]: "length (batch_outcomes os g self d out files w) = length files"
  by (induction files arbitrary: w) (auto split: prod.splits)

lemma batch_outcomes_append:
  "batch_outcomes os g self d out (xs @ ys) w =
     batch_outcomes os g self d out xs w
     @ batch_outcomes os g self d out ys (batch_world os g self d out xs w)"
  by (induction xs arbitrary: w) (auto split: prod.splits)

lemma batch_world_append:
  "batch_world os g self d out (xs @ ys) w =
     batch_world os g self d out ys (batch_world os g self d out xs w)"
  by (induction xs arbitrary: w) auto

lemma batch_outcomes_nth:
  assumes "i < length files"
  shows "batch_outcomes os g self d out files w ! i =
           fst (convert_html_file_to_pdf os g self (os_path_join d (files ! i))
                  (Some (os_path_join out (stem (files ! i) @ ''.pdf'')))
                  (batch_world os g self d out (take i files) w))"
proof -
  have split: "files = take i files @ (files ! i) # drop (Suc i) files"
    using assms by (simp add: id_take_nth_drop)
  have "batch_outcomes os g self d out files w ! i =
        (batch_outcomes os g self d out (take i files) w
         @ batch_outcomes os g self d out ((files ! i) # drop (Suc i) files)
             (batch_world os g self d out (take i files) w)) ! i"
    using split batch_outcomes_append [of os g self d out "take i files"
        "(files ! i) # drop (Suc i) files" w] by simp
  also have "\<dots> = batch_outcomes os g self d out ((files ! i) # drop (Suc i) files)
             (batch_world os g self d out (take i files) w) ! 0"
    using assms by (simp add: nth_append)
  finally show ?thesis by (simp split: prod.splits)
qed

lemma batch_convert_report:
  assumes ex: "os_path_exists os w d"
    and ls: "os_listdir os w d = Inr names"
    and dk: "distinct (map (os_path_join d) (filter is_html names))"
  shows "batch_convert_html_files os g self d out w =
           (Inr (zip (map (os_path_join d) (filter is_html names))
                   (map report_entry
                      (batch_outcomes os g self d (chosen_dir self out)
                         (filter is_html names) w))),
            batch_world os g self d (chosen_dir self out) (filter is_html names) w)"
proof (cases "filter is_html names = []")
  case True
  then show ?thesis
    using ex ls by (simp add: batch_convert_html_files_def)
next
  case False
  have "batch_loop os g self d (chosen_dir self out) (filter is_html names) [] w =
          ([] @ zip (map (os_path_join d) (filter is_html names))
                   (map report_entry
                      (batch_outcomes os g self d (chosen_dir self out)
                         (filter is_html names) w)),
           batch_world os g self d (chosen_dir self out) (filter is_html names) w)"
    by (rule batch_loop_report) (use dk in simp_all)
  then show ?thesis
    using ex ls False by (simp add: batch_convert_html_files_def chosen_dir_def)
qed

lemma batch_convert_returns:
  assumes ex: "os_path_exists os w d" and ls: "os_listdir os w d = Inr names"
  shows "\<exists>report w'. batch_convert_html_files os g self d out w = (Inr report, w')"
  using ex ls
  by (auto simp: batch_convert_html_files_def Let_def split: prod.splits)

lemma unreadable_raises:
  assumes "open_read os w p = Inl e0"
    and "fst (write_pdf os (Filename p) q (snd (os_makedirs os (os_path_dirname q) w))) = Inl e1"
  shows "\<exists>e. fst (convert_html_file_to_pdf os g self p (Some q) w) = Inl e"
  using assms
  by (auto simp: convert_html_file_to_pdf_def convert_with_weasyprint_file_def
      convert_with_reportlab_file_def split: prod.splits sum.splits)

lemma site_exists: "os_path_exists fs_env site_world ''site''"
  by code_simp

lemma site_listdir: "os_listdir fs_env site_world ''site'' = Inr site_listing"
  by code_simp

lemma site_distinct: "distinct site_listing"
  by code_simp

lemma site_noslash: "\<forall>n\<in>set site_listing. CHR ''/'' \<notin> set n"
  by code_simp

lemma site_html: "filter is_html site_listing = [''index.html'', ''old.html'', ''About.HTML'']"
  by code_simp

text \<open>
  Claim C4. For an existing directory whose listing succeeds (the names of a
  listing are distinct and contain no separator), the batch returns a report with
  one entry per listed name that ends in \<^verbatim>\<open>.html\<close> case-insensitively: as many
  entries as there are such names, keyed by the joined paths in listing order, no key
  twice. The other names of the listing play no part.
\<close>

theorem batch_report_entries:
  assumes ex: "os_path_exists os w d"
    and ls: "os_listdir os w d = Inr names"
    and dn: "distinct names"
    and sl: "\<forall>n\<in>set names. CHR ''/'' \<notin> set n"
  shows "\<exists>report w'.
           batch_convert_html_files os g self d out w = (Inr report, w') \<and>
           length report = length (filter is_html names) \<and>
           map fst report = map (os_path_join d) (filter is_html names) \<and>
           distinct (map fst report)"
proof -
  have dk: "distinct (map (os_path_join d) (filter is_html names))"
    by (rule distinct_keys) (use dn sl in auto)
  show ?thesis
    unfolding batch_convert_report [OF ex ls dk]
    using dk by simp
qed

theorem batch_report_entries_witness:
  "\<exists>report w'.
     batch_convert_html_files fs_env reportlab_selected conv_out ''site'' (Some ''pdfs'')
       site_world = (Inr report, w') \<and>
     length report = 3 \<and>
     map fst report = [''site/index.html'', ''site/old.html'', ''site/About.HTML''] \<and>
     distinct (map fst report)"
proof -
  have j: "map (os_path_join ''site'') [''index.html'', ''old.html'', ''About.HTML'']
      = [''site/index.html'', ''site/old.html'', ''site/About.HTML'']"
    by code_simp
  show ?thesis
    using batch_report_entries [OF site_exists site_listdir site_distinct site_noslash,
        of reportlab_selected conv_out "Some ''pdfs''"]
    unfolding site_html j by (simp add: numeral_3_eq_3)
qed

text \<open>
  Claim C5. A directory that does not exist makes the batch raise
  \<open>FileNotFoundError\<close>. For an existing directory whose listing succeeds the batch
  returns a report and raises nothing, and when no listed name ends in \<^verbatim>\<open>.html\<close>
  (case-insensitively) the report is empty and the world untouched. An exception
  that leaves the batch is either that \<open>FileNotFoundError\<close>, raised because the
  directory does not exist, or the one the listing of an existing path raised.
\<close>

theorem batch_empty_report:
  "(\<not> os_path_exists os w d \<longrightarrow>
      batch_convert_html_files os g self d out w =
        (Inl (FileNotFoundError (''HTML directory not found: '' @ d)), w)) \<and>
   (os_path_exists os w d \<and> os_listdir os w d = Inr names \<longrightarrow>
      (\<exists>report w'. batch_convert_html_files os g self d out w = (Inr report, w')) \<and>
      ((\<forall>n\<in>set names. \<not> is_html n) \<longrightarrow>
         batch_convert_html_files os g self d out w = (Inr [], w))) \<and>
   (\<forall>e w'. batch_convert_html_files os g self d out w = (Inl e, w') \<longrightarrow>
      (if os_path_exists os w d then os_listdir os w d = Inl e
       else e = FileNotFoundError (''HTML directory not found: '' @ d)))"
proof (intro conjI impI allI)
  assume "\<not> os_path_exists os w d"
  then show "batch_convert_html_files os g self d out w =
        (Inl (FileNotFoundError (''HTML directory not found: '' @ d)), w)"
    by (simp add: batch_convert_html_files_def)
next
  assume "os_path_exists os w d \<and> os_listdir os w d = Inr names"
  then show "\<exists>report w'. batch_convert_html_files os g self d out w = (Inr report, w')"
    by (auto intro: batch_convert_returns)
next
  assume a: "os_path_exists os w d \<and> os_listdir os w d = Inr names"
    and b: "\<forall>n\<in>set names. \<not> is_html n"
  from b have "filter is_html names = []" by (simp add: filter_empty_conv)
  with a show "batch_convert_html_files os g self d out w = (Inr [], w)"
    by (simp add: batch_convert_html_files_def)
next
  fix e w'
  assume "batch_convert_html_files os g self d out w = (Inl e, w')"
  then show "if os_path_exists os w d then os_listdir os w d = Inl e
       else e = FileNotFoundError (''HTML directory not found: '' @ d)"
    by (auto simp: batch_convert_html_files_def Let_def split: if_splits sum.splits prod.splits)
qed

theorem batch_empty_report_witness:
  "batch_convert_html_files fs_env reportlab_selected conv_out ''site'' None [] =
     (Inl (FileNotFoundError ''HTML directory not found: site''), []) \<and>
   batch_convert_html_files fs_env reportlab_selected conv_out ''notes'' None notes_world =
     (Inr [], notes_world)"
proof -
  have missing: "\<not> os_path_exists fs_env [] ''site''"
    by code_simp
  have there: "os_path_exists fs_env notes_world ''notes'' \<and>
      os_listdir fs_env notes_world ''notes'' = Inr [''a.txt'', ''b.css'']"
    by code_simp
  have none: "\<forall>n\<in>set [''a.txt'', ''b.css'']. \<not> is_html n"
    by code_simp
  have a: "batch_convert_html_files fs_env reportlab_selected conv_out ''site'' None [] =
     (Inl (FileNotFoundError (''HTML directory not found: '' @ ''site'')), [])"
    using batch_empty_report [of fs_env "[]" "''site''" reportlab_selected conv_out None "[]",
        THEN conjunct1] missing
    by (rule mp)
  have b: "batch_convert_html_files fs_env reportlab_selected conv_out ''notes'' None
      notes_world = (Inr [], notes_world)"
    using batch_empty_report [of fs_env notes_world "''notes''" reportlab_selected conv_out
        None "[''a.txt'', ''b.css'']", THEN conjunct2, THEN conjunct1] there none
    by blast
  show ?thesis
    using a b by simp
qed

text \<open>
  Claim C6. In a batch over an existing directory, the entry of the \<open>i\<close>-th HTML
  file is the result of its own conversion, run when its turn comes: the returned
  path, or \<^verbatim>\<open>Error: \<close> followed by the message of the exception it raised. The
  batch returns a report with an entry for every HTML file whatever the other
  conversions did: no exception of a conversion leaves the loop, and no entry is
  removed or overwritten by another file.
\<close>

theorem batch_failure_isolated:
  assumes ex: "os_path_exists os w d"
    and ls: "os_listdir os w d = Inr names"
    and dn: "distinct names"
    and sl: "\<forall>n\<in>set names. CHR ''/'' \<notin> set n"
    and i: "i < length (filter is_html names)"
    and conv: "convert_html_file_to_pdf os g self
                 (os_path_join d (filter is_html names ! i))
                 (Some (os_path_join (chosen_dir self out)
                          (stem (filter is_html names ! i) @ ''.pdf'')))
                 (batch_world os g self d (chosen_dir self out)
                    (take i (filter is_html names)) w) = (r, w1)"
  shows "\<exists>report w'.
           batch_convert_html_files os g self d out w = (Inr report, w') \<and>
           length report = length (filter is_html names) \<and>
           report ! i =
             (os_path_join d (filter is_html names ! i),
              case r of Inr converted_path \<Rightarrow> converted_path
                      | Inl e \<Rightarrow> ''Error: '' @ str_exn e)"
proof -
  have dk: "distinct (map (os_path_join d) (filter is_html names))"
    by (rule distinct_keys) (use dn sl in auto)
  show ?thesis
    unfolding batch_convert_report [OF ex ls dk]
    using i conv by (simp add: batch_outcomes_nth report_entry_def)
qed

theorem batch_failure_isolated_witness:
  "\<exists>report w'.
     batch_convert_html_files fs_env reportlab_selected conv_out ''site'' (Some ''pdfs'')
       site_world = (Inr report, w') \<and>
     length report = 3 \<and>
     report ! 1 = (''site/old.html'', ''Error: '' @ str_exn (eisdir ''site/old.html'')) \<and>
     report ! 2 = (''site/About.HTML'', ''pdfs/About.pdf'')"
proof -
  have three: "length [''index.html'', ''old.html'', ''About.HTML''] = 3"
    by simp
  have i1: "1 < length (filter is_html site_listing)"
    and i2: "2 < length (filter is_html site_listing)"
    unfolding site_html by simp_all
  have r1: "convert_html_file_to_pdf fs_env reportlab_selected conv_out
        (os_path_join ''site'' (filter is_html site_listing ! 1))
        (Some (os_path_join (chosen_dir conv_out (Some ''pdfs''))
                 (stem (filter is_html site_listing ! 1) @ ''.pdf'')))
        (batch_world fs_env reportlab_selected conv_out ''site''
           (chosen_dir conv_out (Some ''pdfs'')) (take 1 (filter is_html site_listing))
           site_world) =
      (Inl (eisdir ''site/old.html''),
       site_world @ [(''pdfs'', Dir []), (''pdfs/index.pdf'', File ''%PDF <p>hi</p>\<newline>'')])"
    by code_simp
  have r2: "convert_html_file_to_pdf fs_env reportlab_selected conv_out
        (os_path_join ''site'' (filter is_html site_listing ! 2))
        (Some (os_path_join (chosen_dir conv_out (Some ''pdfs''))
                 (stem (filter is_html site_listing ! 2) @ ''.pdf'')))
        (batch_world fs_env reportlab_selected conv_out ''site''
           (chosen_dir conv_out (Some ''pdfs'')) (take 2 (filter is_html site_listing))
           site_world) =
      (Inr ''pdfs/About.pdf'',
       site_world @ [(''pdfs'', Dir []), (''pdfs/index.pdf'', File ''%PDF <p>hi</p>\<newline>''),
         (''pdfs/About.pdf'', File ''%PDF about\<newline>'')])"
    by code_simp
  have k1: "os_path_join ''site'' ''old.html'' = ''site/old.html''"
    and k2: "os_path_join ''site'' ''About.HTML'' = ''site/About.HTML''"
    by code_simp+
  from batch_failure_isolated [OF site_exists site_listdir site_distinct site_noslash i1 r1]
    batch_failure_isolated [OF site_exists site_listdir site_distinct site_noslash i2 r2]
  show ?thesis
    unfolding site_html three by (auto simp: k1 k2)
qed

text \<open>
  Claim C10. The batch picks its inputs by name only: the keys of the report are the
  paths of the listed names whose lowercased form ends in \<^verbatim>\<open>.html\<close>, whatever
  kind of entry they name. An entry \<open>n\<close> with such a name is converted like every
  other. When it is not a readable file at its turn (opening it raises,
  as for a directory, and so does WeasyPrint given its path), the report has an entry
  under its key, and that entry is an error string: the entry is not skipped.
\<close>

theorem batch_includes_non_file_entry:
  assumes ex: "os_path_exists os w d"
    and ls: "os_listdir os w d = Inr (pre @ n # post)"
    and dn: "distinct (pre @ n # post)"
    and sl: "\<forall>x\<in>set (pre @ n # post). CHR ''/'' \<notin> set x"
    and html: "is_html n"
    and w1: "w1 = batch_world os g self d (chosen_dir self out) (filter is_html pre) w"
    and q: "q = os_path_join (chosen_dir self out) (stem n @ ''.pdf'')"
    and rd: "open_read os w1 (os_path_join d n) = Inl e0"
    and wp: "fst (write_pdf os (Filename (os_path_join d n)) q
                   (snd (os_makedirs os (os_path_dirname q) w1))) = Inl e1"
  shows "\<exists>report w' m.
           batch_convert_html_files os g self d out w = (Inr report, w') \<and>
           map fst report = map (os_path_join d) (filter is_html (pre @ n # post)) \<and>
           map_of report (os_path_join d n) = Some (''Error: '' @ m)"
proof -
  let ?hf = "filter is_html (pre @ n # post)"
  let ?i = "length (filter is_html pre)"
  have hf: "?hf = filter is_html pre @ n # filter is_html post"
    using html by simp
  have i: "?i < length ?hf" and at: "?hf ! ?i = n" and tk: "take ?i ?hf = filter is_html pre"
    using html by simp_all
  have dk: "distinct (map (os_path_join d) ?hf)"
    by (rule distinct_keys) (use dn sl in auto)
  obtain e where e: "fst (convert_html_file_to_pdf os g self (os_path_join d n) (Some q) w1) = Inl e"
    using unreadable_raises [OF rd wp] by blast
  have out: "batch_outcomes os g self d (chosen_dir self out) ?hf w ! ?i = Inl e"
    using e by (simp only: batch_outcomes_nth [OF i] at tk w1 q)
  let ?keys = "map (os_path_join d) ?hf"
  let ?vals = "map report_entry (batch_outcomes os g self d (chosen_dir self out) ?hf w)"
  have "map_of (zip ?keys ?vals) (?keys ! ?i) = Some (?vals ! ?i)"
    by (rule map_of_zip_nth) (use dk i in simp_all)
  moreover have "?keys ! ?i = os_path_join d n" using i at by (simp only: nth_map at)
  moreover have "?vals ! ?i = ''Error: '' @ str_exn e"
    using out i by (simp add: report_entry_def)
  ultimately have "map_of (zip ?keys ?vals) (os_path_join d n) = Some (''Error: '' @ str_exn e)"
    by simp
  moreover have "map fst (zip ?keys ?vals) = ?keys"
    by simp
  ultimately show ?thesis
    unfolding batch_convert_report [OF ex ls dk] by blast
qed

theorem batch_includes_non_file_entry_witness:
  "\<exists>report w' m.
     batch_convert_html_files fs_env reportlab_selected conv_out ''site'' (Some ''pdfs'')
       site_world = (Inr report, w') \<and>
     map fst report = [''site/index.html'', ''site/old.html'', ''site/About.HTML''] \<and>
     map_of report ''site/old.html'' = Some (''Error: '' @ m)"
proof -
  let ?w1 = "batch_world fs_env reportlab_selected conv_out ''site''
      (chosen_dir conv_out (Some ''pdfs'')) (filter is_html [''index.html'', ''notes.txt''])
      site_world"
  let ?q = "os_path_join (chosen_dir conv_out (Some ''pdfs'')) (stem ''old.html'' @ ''.pdf'')"
  have ls: "os_listdir fs_env site_world ''site'' =
      Inr ([''index.html'', ''notes.txt''] @ ''old.html'' # [''About.HTML''])"
    by code_simp
  have dn: "distinct ([''index.html'', ''notes.txt''] @ ''old.html'' # [''About.HTML''])"
    by code_simp
  have sl: "\<forall>x\<in>set ([''index.html'', ''notes.txt''] @ ''old.html'' # [''About.HTML'']).
      CHR ''/'' \<notin> set x"
    by code_simp
  have html: "is_html ''old.html''"
    by code_simp
  have rd: "open_read fs_env ?w1 (os_path_join ''site'' ''old.html'') =
      Inl (eisdir ''site/old.html'')"
    by code_simp
  have wp: "fst (write_pdf fs_env (Filename (os_path_join ''site'' ''old.html'')) ?q
                   (snd (os_makedirs fs_env (os_path_dirname ?q) ?w1))) =
      Inl (OtherError ''URLFetchingError'' (str_exn (eisdir ''site/old.html'')))"
    by code_simp
  have k: "os_path_join ''site'' ''old.html'' = ''site/old.html''"
    by code_simp
  have ks: "map (os_path_join ''site'')
        (filter is_html ([''index.html'', ''notes.txt''] @ ''old.html'' # [''About.HTML''])) =
      [''site/index.html'', ''site/old.html'', ''site/About.HTML'']"
    by code_simp
  show ?thesis
    using batch_includes_non_file_entry [OF site_exists ls dn sl html refl refl rd wp]
    unfolding k ks .
qed

section \<open>Properties of the fallback backend\<close>

lemma text_of_stripped:
  "\<not> is_tag_of names n \<Longrightarrow> names = [''script'', ''style''] \<Longrightarrow>
     get_text (decompose names n) = concat (visible_strings n)"
  "names = [''script'', ''style''] \<Longrightarrow>
     get_text_all (decompose_all names ns) = concat (visible_strings_all ns)"
proof (induct names n and names ns rule: decompose_decompose_all.induct)
  case (5 names n ns)
  then show ?case by (cases n) auto
qed auto

lemma split_nn_nonempty: "split_nn s \<noteq> []"
proof (induct s rule: split_nn.induct)
  case (3 x y zs)
  then show ?case by (cases "split_nn (y # zs)") auto
qed auto

lemma split_nn_step:
  assumes "\<not> (x = CHR 0x0A \<and> y = CHR 0x0A)"
  obtains q qs where "split_nn (y # zs) = q # qs" "split_nn (x # y # zs) = (x # q) # qs"
proof -
  obtain q qs where q: "split_nn (y # zs) = q # qs"
    using split_nn_nonempty [of "y # zs"] by (cases "split_nn (y # zs)") auto
  with assms have "split_nn (x # y # zs) = (x # q) # qs" by simp
  with q show ?thesis by (rule that)
qed

lemma split_nn_first:
  assumes "split_nn s = p # ps"
  shows "(p = [] \<and> (s = [] \<or> (\<exists>zs. s = CHR 0x0A # CHR 0x0A # zs))) \<or>
         (p \<noteq> [] \<and> s \<noteq> [] \<and> hd p = hd s)"
proof (cases s rule: split_nn.cases)
  case 1
  with assms show ?thesis by simp
next
  case (2 x)
  with assms show ?thesis by auto
next
  case (3 x y zs)
  show ?thesis
  proof (cases "x = CHR 0x0A \<and> y = CHR 0x0A")
    case True
    with 3 assms show ?thesis by auto
  next
    case False
    then obtain q qs where "split_nn (x # y # zs) = (x # q) # qs"
      by (rule split_nn_step)
    with 3 assms show ?thesis by auto
  qed
qed

lemma split_nn_no_separator:
  "p \<in> set (split_nn s) \<Longrightarrow> p \<noteq> a @ [CHR 0x0A, CHR 0x0A] @ b"
proof (induct s arbitrary: p a b rule: split_nn.induct)
  case 1
  then show ?case by simp
next
  case (2 x)
  then show ?case by (cases a) auto
next
  case (3 x y zs)
  show ?case
  proof (cases "x = CHR 0x0A \<and> y = CHR 0x0A")
    case True
    with 3(1) [OF True] 3(3) show ?thesis by auto
  next
    case False
    then obtain q qs where q: "split_nn (y # zs) = q # qs"
      and s: "split_nn (x # y # zs) = (x # q) # qs"
      by (rule split_nn_step)
    from 3(3) s have "p = x # q \<or> p \<in> set qs" by simp
    then show ?thesis
    proof
      assume "p \<in> set qs"
      then have "p \<in> set (split_nn (y # zs))" using q by simp
      then show ?thesis by (rule 3(2) [OF False])
    next
      assume p: "p = x # q"
      show ?thesis
      proof
        assume eq: "p = a @ [CHR 0x0A, CHR 0x0A] @ b"
        show False
        proof (cases a)
          case Nil
          with eq p have x: "x = CHR 0x0A" and qb: "q = CHR 0x0A # b" by auto
          from split_nn_first [OF q] qb have "y = CHR 0x0A" by auto
          with x False show False by simp
        next
          case (Cons c a')
          with eq p have "q = a' @ [CHR 0x0A, CHR 0x0A] @ b" by simp
          moreover have "q \<in> set (split_nn (y # zs))" using q by simp
          ultimately show False using 3(2) [OF False] by blast
        qed
      qed
    qed
  qed
qed

lemma split_nn_leftmost:
  "p \<in> set (butlast (split_nn s)) \<Longrightarrow> p = [] \<or> last p \<noteq> CHR 0x0A"
proof (induct s arbitrary: p rule: split_nn.induct)
  case 1
  then show ?case by simp
next
  case (2 x)
  then show ?case by simp
next
  case (3 x y zs)
  show ?case
  proof (cases "x = CHR 0x0A \<and> y = CHR 0x0A")
    case True
    with 3(3) have "p = [] \<or> p \<in> set (butlast (split_nn zs))"
      by (simp add: split_nn_nonempty)
    with 3(1) [OF True] show ?thesis by blast
  next
    case False
    then obtain q qs where q: "split_nn (y # zs) = q # qs"
      and s: "split_nn (x # y # zs) = (x # q) # qs"
      by (rule split_nn_step)
    show ?thesis
    proof (cases "qs = []")
      case True
      with 3(3) s show ?thesis by simp
    next
      case qs: False
      with 3(3) s have "p = x # q \<or> p \<in> set (butlast qs)" by simp
      then show ?thesis
      proof
        assume "p \<in> set (butlast qs)"
        then have "p \<in> set (butlast (split_nn (y # zs)))" using q qs by simp
        then show ?thesis by (rule 3(2) [OF False])
      next
        assume p: "p = x # q"
        have "q \<in> set (butlast (split_nn (y # zs)))" using q qs by simp
        then have "q = [] \<or> last q \<noteq> CHR 0x0A" by (rule 3(2) [OF False])
        then show ?thesis
        proof
          assume "q = []"
          with split_nn_first [OF q] have "y = CHR 0x0A" by auto
          with False have "x \<noteq> CHR 0x0A" by simp
          with p \<open>q = []\<close> show ?thesis by simp
        next
          assume "last q \<noteq> CHR 0x0A"
          moreover have "q \<noteq> [] \<Longrightarrow> last (x # q) = last q" by simp
          ultimately show ?thesis using p
            by (cases "q = []") (use False split_nn_first [OF q] in auto)
        qed
      qed
    qed
  qed
qed

lemma join_cons_first: "ps \<noteq> [] \<Longrightarrow> join_nn (cons_first x ps) = x # join_nn ps"
  by (cases ps rule: join_nn.cases) auto

lemma join_split_nn: "join_nn (split_nn s) = s"
proof (induct s rule: split_nn.induct)
  case (3 x y zs)
  show ?case
  proof (cases "x = CHR 0x0A \<and> y = CHR 0x0A")
    case True
    obtain p ps where "split_nn zs = p # ps"
      using split_nn_nonempty [of zs] by (cases "split_nn zs") auto
    with True 3 show ?thesis by auto
  next
    case False
    with 3 show ?thesis
      by (simp add: join_cons_first split_nn_nonempty del: split_nn.simps(3)) (auto simp: join_cons_first split_nn_nonempty)
  qed
qed auto

lemma drop_prefixes_decomp:
  "\<exists>ls. set ls \<subseteq> set ps \<and> s = concat ls @ drop_prefixes ps s"
proof (induct ps s rule: drop_prefixes.induct)
  case (1 ps s)
  show ?case
  proof (cases "find (\<lambda>p. p \<noteq> [] \<and> startswith s p) ps")
    case None
    then have "drop_prefixes ps s = s" by (simp add: drop_prefixes.simps)
    then have "set [] \<subseteq> set ps \<and> s = concat [] @ drop_prefixes ps s" by simp
    then show ?thesis by blast
  next
    case (Some p)
    then have mem: "p \<in> set ps" and sw: "startswith s p"
      by (auto simp: find_Some_iff)
    from 1 [OF Some] obtain ls where ls: "set ls \<subseteq> set ps"
      "drop (length p) s = concat ls @ drop_prefixes ps (drop (length p) s)" by blast
    have step: "drop_prefixes ps s = drop_prefixes ps (drop (length p) s)"
      using Some by (simp add: drop_prefixes.simps)
    have "s = p @ drop (length p) s"
      using sw by (metis append_take_drop_id startswith_def)
    then have "s = concat (p # ls) @ drop_prefixes ps s"
      using ls(2) step by simp
    moreover have "set (p # ls) \<subseteq> set ps" using mem ls(1) by simp
    ultimately show ?thesis by blast
  qed
qed

lemma drop_prefixes_done:
  "p \<in> set ps \<Longrightarrow> p \<noteq> [] \<Longrightarrow> \<not> startswith (drop_prefixes ps s) p"
proof (induct ps s rule: drop_prefixes.induct)
  case (1 ps s)
  show ?case
  proof (cases "find (\<lambda>p. p \<noteq> [] \<and> startswith s p) ps")
    case None
    then have "drop_prefixes ps s = s" by (simp add: drop_prefixes.simps)
    moreover from None 1(2,3) have "\<not> startswith s p"
      by (auto simp: find_None_iff)
    ultimately show ?thesis by simp
  next
    case (Some q)
    then have "drop_prefixes ps s = drop_prefixes ps (drop (length q) s)"
      by (simp add: drop_prefixes.simps)
    with 1(1) [OF Some 1(2,3)] show ?thesis by simp
  qed
qed

lemma whitespace_nonempty: "\<forall>e\<in>set whitespace. e \<noteq> []"
  by (simp add: whitespace_def)

lemma startswith_rev: "startswith (rev s) (rev e) = endswith s e"
proof -
  have "take (length e) (rev s) = rev (drop (length s - length e) s)"
    by (simp add: take_rev)
  then have eq: "startswith (rev s) (rev e) = (drop (length s - length e) s = e)"
    by (simp add: startswith_def)
  have len: "length e \<le> length s" if "drop (length s - length e) s = e"
  proof -
    have "length (drop (length s - length e) s) = length e" using that by simp
    then show ?thesis by simp
  qed
  show ?thesis
    unfolding eq endswith_def using len by blast
qed

lemma startswith_append: "startswith a e \<Longrightarrow> startswith (a @ b) e"
proof -
  assume a: "startswith a e"
  then have t: "take (length e) a = e" by (simp add: startswith_def)
  then have "length (take (length e) a) = length e" by simp
  then have "length e \<le> length a" by simp
  then show ?thesis using t by (simp add: startswith_def)
qed

lemma strip_spec:
  "\<exists>ls rs. set ls \<subseteq> set whitespace \<and> set rs \<subseteq> set whitespace \<and>
      s = concat ls @ strip s @ concat rs \<and>
      (\<forall>e\<in>set whitespace. \<not> startswith (strip s) e \<and> \<not> endswith (strip s) e)"
proof -
  obtain ls where ls: "set ls \<subseteq> set whitespace" "s = concat ls @ lstrip s"
    using drop_prefixes_decomp [of whitespace s] by (auto simp: lstrip_def)
  obtain rl where rl: "set rl \<subseteq> set (map rev whitespace)"
    "rev (lstrip s) = concat rl @ drop_prefixes (map rev whitespace) (rev (lstrip s))"
    using drop_prefixes_decomp [of "map rev whitespace" "rev (lstrip s)"] by blast
  let ?rs = "map rev (rev rl)"
  have rs: "set ?rs \<subseteq> set whitespace"
    using rl(1) by auto
  have "lstrip s = rev (concat rl @ drop_prefixes (map rev whitespace) (rev (lstrip s)))"
    using rl(2) by (metis rev_rev_ident)
  then have mid: "lstrip s = strip s @ concat ?rs"
    by (simp add: strip_def rstrip_def rev_concat rev_map)
  have noend: "\<not> endswith (strip s) e" if "e \<in> set whitespace" for e
  proof -
    have "rev e \<in> set (map rev whitespace)" "rev e \<noteq> []"
      using that whitespace_nonempty by auto
    then have "\<not> startswith (drop_prefixes (map rev whitespace) (rev (lstrip s))) (rev e)"
      by (rule drop_prefixes_done)
    then show ?thesis
      by (simp add: strip_def rstrip_def startswith_rev [symmetric])
  qed
  have nostart: "\<not> startswith (strip s) e" if "e \<in> set whitespace" for e
  proof
    assume a: "startswith (strip s) e"
    have ne: "e \<noteq> []" using that whitespace_nonempty by auto
    have "startswith (lstrip s) e"
      unfolding mid using a by (rule startswith_append)
    moreover have "\<not> startswith (lstrip s) e"
      unfolding lstrip_def using that ne by (rule drop_prefixes_done)
    ultimately show False by simp
  qed
  have "s = concat ls @ strip s @ concat ?rs"
    using ls(2) mid by simp
  with ls(1) rs noend nostart show ?thesis by blast
qed

lemma paragraph_blocks_concat:
  "paragraph_blocks ps =
     concat (map (\<lambda>p. [Paragraph p Normal, Spacer 1 6]) (filter (\<lambda>p. p \<noteq> []) (map strip ps)))"
  by (induct ps) auto

lemma build_story_eq:
  "build_story parsed =
     (case find_tag_all ''title'' (decompose_all [''script'', ''style''] parsed) of
        Some title_tag \<Rightarrow> [Paragraph (get_text title_tag) Title, Spacer 1 12]
      | None \<Rightarrow> [])
     @ concat (map (\<lambda>p. [Paragraph p Normal, Spacer 1 6])
                 (filter (\<lambda>p. p \<noteq> [])
                    (map strip (split_nn (concat (visible_strings_all parsed))))))"
  by (simp add: build_story_def title_block_def paragraph_blocks_concat
      text_of_stripped(2) Let_def)

lemma demo_story:
  "build_story demo_soup =
     [Paragraph ''Demo'' Title, Spacer 1 12, Paragraph ''DemoAB'' Normal, Spacer 1 6]"
  by code_simp

lemma spaced_pieces:
  "split_nn (concat (visible_strings_all spaced_soup)) =
     [''Demo A'', '' '' @ nbsp @ '' '', ''B'' @ nbsp]"
  by code_simp

lemma spaced_story:
  "build_story spaced_soup =
     [Paragraph ''Demo'' Title, Spacer 1 12,
      Paragraph ''Demo A'' Normal, Spacer 1 6,
      Paragraph ''B'' Normal, Spacer 1 6]"
  by code_simp

text \<open>
  Claim C7, as the code has it. When its imports succeed and the parent directory
  could be made, the fallback conversion parses the document (an exception of the
  parser is the result) and hands \<open>doc_build\<close> the story of the parsed document. That
  story is the title block (the text of the first \<^verbatim>\<open>title\<close> tag that is left after
  the \<^verbatim>\<open>script\<close> and \<^verbatim>\<open>style\<close> tags are removed, if there is one) followed by one
  paragraph for each non-empty stripped piece, in order, of the text. The text is the
  whole text of the document outside \<^verbatim>\<open>script\<close> and \<^verbatim>\<open>style\<close> tags: the title
  element is not taken out of it, so the title text is part of the body as well. The
  pieces are the text cut at every pair of line feeds, from the left: joined with two
  line feeds they give the text back, none contains two line feeds in a row, and none
  but the last ends in a line feed. A stripped piece is the piece without the white
  space at its two ends: what is cut off on either side is a run of white space
  characters, and what is left neither starts nor ends with one. For the document
  \<^verbatim>\<open><title>Demo</title><p>A</p><p></p><p>B</p>\<close> the story is the title \<^verbatim>\<open>Demo\<close>
  and the single paragraph \<^verbatim>\<open>DemoAB\<close>; for the second document the pieces are
  \<^verbatim>\<open>Demo A\<close>, a piece of white space only (a no-break space between two spaces) and
  \<^verbatim>\<open>B\<close> followed by a no-break space, and the story is the title \<^verbatim>\<open>Demo\<close> and the
  paragraphs \<^verbatim>\<open>Demo A\<close> and \<^verbatim>\<open>B\<close>.
\<close>

theorem fallback_story:
  assumes imp: "fallback_import_error os = None"
    and mk: "os_makedirs os (os_path_dirname out) w = (Inr (), w1)"
  shows "convert_with_reportlab_string os html_content out w =
           (case BeautifulSoup os html_content of
              Inl e \<Rightarrow> (Inl e, w1)
            | Inr soup \<Rightarrow>
                (case doc_build os out (build_story soup) w1 of
                   (Inl e, w2) \<Rightarrow> (Inl e, w2)
                 | (Inr u, w2) \<Rightarrow> (Inr out, w2))) \<and>
         build_story parsed =
           (case find_tag_all ''title'' (decompose_all [''script'', ''style''] parsed) of
              Some title_tag \<Rightarrow> [Paragraph (get_text title_tag) Title, Spacer 1 12]
            | None \<Rightarrow> [])
           @ concat (map (\<lambda>p. [Paragraph p Normal, Spacer 1 6])
                       (filter (\<lambda>p. p \<noteq> [])
                          (map strip (split_nn (concat (visible_strings_all parsed)))))) \<and>
         join_nn (split_nn text_content) = text_content \<and>
         (\<forall>p\<in>set (split_nn text_content). \<forall>a b. p \<noteq> a @ [CHR 0x0A, CHR 0x0A] @ b) \<and>
         (\<forall>p\<in>set (butlast (split_nn text_content)). p = [] \<or> last p \<noteq> CHR 0x0A) \<and>
         (\<exists>ls rs. set ls \<subseteq> set whitespace \<and> set rs \<subseteq> set whitespace \<and>
            para = concat ls @ strip para @ concat rs \<and>
            (\<forall>e\<in>set whitespace. \<not> startswith (strip para) e \<and> \<not> endswith (strip para) e)) \<and>
         build_story demo_soup =
           [Paragraph ''Demo'' Title, Spacer 1 12, Paragraph ''DemoAB'' Normal, Spacer 1 6] \<and>
         split_nn (concat (visible_strings_all spaced_soup)) =
           [''Demo A'', '' '' @ nbsp @ '' '', ''B'' @ nbsp] \<and>
         build_story spaced_soup =
           [Paragraph ''Demo'' Title, Spacer 1 12,
            Paragraph ''Demo A'' Normal, Spacer 1 6,
            Paragraph ''B'' Normal, Spacer 1 6]"
proof (intro conjI)
  show "convert_with_reportlab_string os html_content out w =
           (case BeautifulSoup os html_content of
              Inl e \<Rightarrow> (Inl e, w1)
            | Inr soup \<Rightarrow>
                (case doc_build os out (build_story soup) w1 of
                   (Inl e, w2) \<Rightarrow> (Inl e, w2)
                 | (Inr u, w2) \<Rightarrow> (Inr out, w2)))"
    using imp mk by (simp add: convert_with_reportlab_string_def)
  show "\<forall>p\<in>set (split_nn text_content). \<forall>a b. p \<noteq> a @ [CHR 0x0A, CHR 0x0A] @ b"
    using split_nn_no_separator by blast
  show "\<forall>p\<in>set (butlast (split_nn text_content)). p = [] \<or> last p \<noteq> CHR 0x0A"
    using split_nn_leftmost by blast
qed (rule build_story_eq join_split_nn strip_spec demo_story spaced_pieces spaced_story)+

theorem fallback_story_witness:
  "convert_with_reportlab_string fs_env demo_html ''out/demo.pdf'' [] =
     (Inr ''out/demo.pdf'',
      [(''out'', Dir []), (''out/demo.pdf'', File ''%PDF Demo\<newline>DemoAB\<newline>'')]) \<and>
   convert_with_reportlab_string fs_env spaced_html ''out/demo.pdf'' [] =
     (Inr ''out/demo.pdf'',
      [(''out'', Dir []),
       (''out/demo.pdf'', File ''%PDF Demo\<newline>Demo A\<newline>B\<newline>'')])"
proof -
  have imp: "fallback_import_error fs_env = None"
    by (simp add: fs_env_def)
  have mk: "os_makedirs fs_env (os_path_dirname ''out/demo.pdf'') [] = (Inr (), [(''out'', Dir [])])"
    by code_simp
  have parse1: "BeautifulSoup fs_env demo_html = Inr demo_soup"
    by code_simp
  have parse2: "BeautifulSoup fs_env spaced_html = Inr spaced_soup"
    by code_simp
  have build1: "doc_build fs_env ''out/demo.pdf'' (build_story demo_soup) [(''out'', Dir [])] =
     (Inr (), [(''out'', Dir []), (''out/demo.pdf'', File ''%PDF Demo\<newline>DemoAB\<newline>'')])"
    by code_simp
  have build2: "doc_build fs_env ''out/demo.pdf'' (build_story spaced_soup) [(''out'', Dir [])] =
     (Inr (), [(''out'', Dir []),
       (''out/demo.pdf'', File ''%PDF Demo\<newline>Demo A\<newline>B\<newline>'')])"
    by code_simp
  have run1: "convert_with_reportlab_string fs_env demo_html ''out/demo.pdf'' [] =
     (Inr ''out/demo.pdf'',
      [(''out'', Dir []), (''out/demo.pdf'', File ''%PDF Demo\<newline>DemoAB\<newline>'')])"
    using fallback_story [OF imp mk, of demo_html, THEN conjunct1]
    by (simp add: parse1 build1)
  have run2: "convert_with_reportlab_string fs_env spaced_html ''out/demo.pdf'' [] =
     (Inr ''out/demo.pdf'',
      [(''out'', Dir []),
       (''out/demo.pdf'', File ''%PDF Demo\<newline>Demo A\<newline>B\<newline>'')])"
    using fallback_story [OF imp mk, of spaced_html, THEN conjunct1]
    by (simp add: parse2 build2)
  show ?thesis
    using run1 run2 by (rule conjI)
qed

text \<open>
  Claim C7 as stated has the paragraphs come from the remaining text, the text
  without the title. For the document of the claim that text is \<^verbatim>\<open>AB\<close>, while the
  paragraph of the story is \<^verbatim>\<open>DemoAB\<close>.
\<close>

theorem fallback_body_repeats_title:
  "paragraph_texts Normal (build_story demo_soup) = [''DemoAB''] \<and>
   paragraphs_of (remaining_text demo_soup) = [''AB'']"
  by code_simp

section \<open>The parent directory of the output path\<close>

text \<open>
  A conversion that returns has made the parent directory of the output path first
  and has written in the world that step left; in the small file system the
  directory then exists, and a directory that was absent is no reason to fail.
\<close>

lemma weasyprint_string_steps:
  "convert_with_weasyprint_string os g content p w = (Inr q, w2) \<Longrightarrow>
   \<exists>w1. os_makedirs os (os_path_dirname p) w = (Inr (), w1) \<and>
        write_pdf os (String content) p w1 = (Inr (), w2)"
  by (auto simp: convert_with_weasyprint_string_def split: if_splits prod.splits sum.splits)

lemma weasyprint_file_steps:
  "convert_with_weasyprint_file os g h p w = (Inr q, w2) \<Longrightarrow>
   \<exists>w1. os_makedirs os (os_path_dirname p) w = (Inr (), w1) \<and>
        write_pdf os (Filename h) p w1 = (Inr (), w2)"
  by (auto simp: convert_with_weasyprint_file_def split: if_splits prod.splits sum.splits)

lemma reportlab_string_steps:
  "convert_with_reportlab_string os content p w = (Inr q, w2) \<Longrightarrow>
   \<exists>w1 parsed. os_makedirs os (os_path_dirname p) w = (Inr (), w1) \<and>
        BeautifulSoup os content = Inr parsed \<and>
        doc_build os p (build_story parsed) w1 = (Inr (), w2)"
  by (auto simp: convert_with_reportlab_string_def split: option.splits prod.splits sum.splits)

lemma fs_makedirs_makes:
  "fs_makedirs p w = (Inr (), w1) \<Longrightarrow> fs_exists w1 p"
  by (auto simp: fs_makedirs_def fs_exists_def map_add_def split: if_splits option.splits fs_node.splits)

lemma fs_makedirs_absent:
  "p \<noteq> [] \<Longrightarrow> \<not> fs_exists w p \<Longrightarrow> fs_makedirs p w = (Inr (), w @ [(p, Dir [])])"
  by (auto simp: fs_makedirs_def fs_exists_def)

lemma bare_filename_dirname: "CHR ''/'' \<notin> set p \<Longrightarrow> os_path_dirname p = []"
proof -
  assume a: "CHR ''/'' \<notin> set p"
  have "rfind p (CHR ''/'') = - 1"
    using a by (induct p) (auto simp: Let_def)
  then show ?thesis by (simp add: os_path_dirname_def)
qed

lemma bare_filename_string_conversion:
  assumes "CHR ''/'' \<notin> set p"
    and "os_makedirs os [] w = (Inl e, w1)"
    and "PDF_GENERATION_AVAILABLE g"
    and "PDF_METHOD g = Some ''weasyprint'' \<or>
         PDF_METHOD g = Some ''reportlab'' \<and> fallback_import_error os = None"
  shows "convert_html_string_to_pdf os g self content p w = (Inl e, w1)"
  using assms
  by (auto simp: convert_html_string_to_pdf_def convert_with_weasyprint_string_def
      convert_with_reportlab_string_def bare_filename_dirname)

text \<open>
  Claim C8 fails for an output path that is a bare file name. All three backend
  paths make the parent directory with
  \<^verbatim>\<open>os.makedirs(os.path.dirname(output_pdf_path), exist_ok=True)\<close>; for a path
  without a separator the directory name is the empty string, for which
  \<^verbatim>\<open>os.makedirs\<close> raises \<^verbatim>\<open>FileNotFoundError\<close>. The conversion then raises before
  anything is rendered, although the parent directory of the output (the current
  directory) exists. Here both conversions are run on \<^verbatim>\<open>report.pdf\<close> under both
  backends.
\<close>

theorem bare_output_filename_raises:
  "convert_html_string_to_pdf fs_env weasyprint_selected conv_out ''<p>x</p>'' ''report.pdf'' [] =
     (Inl (FileNotFoundError (''[Errno 2] No such file or directory: '' @ [CHR 0x27, CHR 0x27])), []) \<and>
   convert_html_string_to_pdf fs_env reportlab_selected conv_out ''<p>x</p>'' ''report.pdf'' [] =
     (Inl (FileNotFoundError (''[Errno 2] No such file or directory: '' @ [CHR 0x27, CHR 0x27])), []) \<and>
   convert_html_file_to_pdf fs_env weasyprint_selected conv_out ''docs/report.html''
       (Some ''report.pdf'') report_world =
     (Inl (FileNotFoundError (''[Errno 2] No such file or directory: '' @ [CHR 0x27, CHR 0x27])),
      report_world) \<and>
   convert_html_file_to_pdf fs_env reportlab_selected conv_out ''docs/report.html''
       (Some ''report.pdf'') report_world =
     (Inl (FileNotFoundError (''[Errno 2] No such file or directory: '' @ [CHR 0x27, CHR 0x27])),
      report_world)"
  by code_simp

section \<open>Properties of the command line\<close>







end
